theory Spec2Isabelle
  imports Main "HOL-Library.AList"
begin

section \<open>JavaScript values the control handles\<close>

text \<open>
  The control of \<^verbatim>\<open>src/TestingComponent/index.ts\<close> only moves strings around, but at
  run time every one of them may be absent: a bound property's \<^verbatim>\<open>raw\<close> is
  \<^verbatim>\<open>string | null\<close> (the \<^verbatim>\<open>!\<close> after it is erased by the compiler), \<^verbatim>\<open>formatted\<close>
  is optional, a class field without initialiser is \<^verbatim>\<open>undefined\<close>, and a property that
  an object literal does not have reads as \<^verbatim>\<open>undefined\<close>.
\<close>

datatype jsval = Undefined | Null | Str string

text \<open>The condition of \<^verbatim>\<open>v ? a : b\<close> and of \<^verbatim>\<open>v || b\<close>: the empty string is falsy.\<close>

fun truthy :: "jsval \<Rightarrow> bool" where
  "truthy (Str s) = (s \<noteq> [])"
| "truthy Undefined = False"
| "truthy Null = False"

text \<open>String conversion, as done by \<^verbatim>\<open>"..." + v\<close> and by a template literal.\<close>

fun toString :: "jsval \<Rightarrow> string" where
  "toString (Str s) = s"
| "toString Undefined = ''undefined''"
| "toString Null = ''null''"

fun is_string :: "jsval \<Rightarrow> bool" where
  "is_string (Str s) = True"
| "is_string Undefined = False"
| "is_string Null = False"

text \<open>
  What can be thrown: the \<^verbatim>\<open>TypeError\<close> of the language itself, and an \<^verbatim>\<open>Error\<close>
  with a message raised by a library.
\<close>

datatype exn = TypeError | Error string

text \<open>
  A void method either returns or throws; in both cases the assignments it made before
  stay in the object, so both outcomes carry the state.
\<close>

datatype 'a completion = Normal 'a | Throw exn 'a

fun state_of :: "'a completion \<Rightarrow> 'a" where
  "state_of (Normal s) = s"
| "state_of (Throw e s) = s"

section \<open>The host's property bag and the DOM\<close>

text \<open>
  Modelled from the spec: the generated \<^verbatim>\<open>ManifestTypes\<close> (\<^verbatim>\<open>IInputs\<close>, \<^verbatim>\<open>IOutputs\<close>) are
  not in the sources. The context "exposes a typed property bag with at least one bound
  property (\<^verbatim>\<open>sampleProperty\<close>: raw string value and optional formatted string)", and
  the outputs hold the same property.
\<close>

record StringProperty =
  raw :: jsval
  formatted :: jsval

record IInputs =
  sampleProperty :: StringProperty

record Context =
  parameters :: IInputs

record IOutputs =
  sampleProperty :: jsval

text \<open>
  The label keeps its attributes and the markup last assigned to \<^verbatim>\<open>innerHTML\<close>. The
  \<^verbatim>\<open>div\<close> and the host's container hold their children by reference.
\<close>

record HTMLLabelElement =
  attributes :: "(string \<times> string) list"
  innerHTML :: string

datatype node = LabelNode | ContainerNode

record HTMLDivElement =
  children :: "node list"

definition createLabel :: HTMLLabelElement where
  "createLabel = \<lparr>attributes = [], innerHTML = ''''\<rparr>"

definition createDiv :: HTMLDivElement where
  "createDiv = \<lparr>children = []\<rparr>"

definition setAttribute :: "HTMLLabelElement \<Rightarrow> string \<Rightarrow> string \<Rightarrow> HTMLLabelElement" where
  "setAttribute el n v = el\<lparr>attributes := AList.update n v (attributes el)\<rparr>"

definition appendChild :: "HTMLDivElement \<Rightarrow> node \<Rightarrow> HTMLDivElement" where
  "appendChild el c = el\<lparr>children := children el @ [c]\<rparr>"

text \<open>
  Assigning to \<^verbatim>\<open>innerHTML\<close>: the DOM turns \<^verbatim>\<open>null\<close> into the empty string and converts
  anything else to a string. The field holds the string as assigned, not what the DOM
  would serialise when the property is read back; the two agree on text without markup.
\<close>

fun set_innerHTML :: "HTMLLabelElement \<Rightarrow> jsval \<Rightarrow> HTMLLabelElement" where
  "set_innerHTML el Null = el\<lparr>innerHTML := ''''\<rparr>"
| "set_innerHTML el v = el\<lparr>innerHTML := toString v\<rparr>"

section \<open>The token endpoint and the speech SDK\<close>

text \<open>
  Modelled from the spec: \<^verbatim>\<open>axios\<close> is an external library. The token endpoint answers
  with a status and a body ("Success: response body is the opaque token string. Failure:
  non-2xx response; error payload surfaced to caller"), or the exchange fails in transport
  and there is no response at all. \<^verbatim>\<open>axios.post\<close> fulfils its promise on a 2xx status
  and rejects it otherwise; the error it rejects with has a \<^verbatim>\<open>response\<close> only when the
  server answered.
\<close>

datatype HttpResult = HttpResponse nat jsval | NetworkError

record AxiosResponse =
  status :: nat
  data :: jsval

record AxiosError =
  response :: "AxiosResponse option"

datatype AxiosOutcome = Fulfilled AxiosResponse | Rejected AxiosError

fun axios_post :: "HttpResult \<Rightarrow> AxiosOutcome" where
  "axios_post (HttpResponse st d) =
     (if 200 \<le> st \<and> st < 300 then Fulfilled \<lparr>status = st, data = d\<rparr>
      else Rejected \<lparr>response = Some \<lparr>status = st, data = d\<rparr>\<rparr>)"
| "axios_post NetworkError = Rejected \<lparr>response = None\<rparr>"

record AxiosRequest =
  url :: string
  body :: jsval
  headers :: "(string \<times> jsval) list"

text \<open>
  Modelled from the spec: the speech SDK is an external collaborator, "invoked as a black
  box": "construct a configuration object from an authorization token and region, set a
  recognition language, bind a default microphone audio source, construct a recognizer,
  invoke a single-shot recognition call that delivers one terminal result asynchronously
  with a reason code (recognized vs. other)". Its objects are recorded as the arguments
  the control passes.
\<close>

datatype ResultReason = NoMatch | Canceled | RecognizingSpeech | RecognizedSpeech | OtherReason nat

record SpeechRecognitionResult =
  reason :: ResultReason
  text' :: jsval

record SpeechConfig =
  authorizationToken :: jsval
  region :: jsval
  speechRecognitionLanguage :: jsval

datatype AudioConfig = DefaultMicrophoneInput

record SpeechRecognizer =
  speechConfig :: SpeechConfig
  audioConfig :: AudioConfig

text \<open>
  Modelled from the spec: the factory that "construct[s] a configuration object from an
  authorization token and region", \<^verbatim>\<open>SpeechConfig.fromAuthorizationToken\<close>, belongs to the
  SDK and is not in the sources. It checks its arguments before it builds
  anything, with the SDK's \<^verbatim>\<open>Contracts\<close>: \<^verbatim>\<open>throwIfNull\<close> on the token (\<^verbatim>\<open>=== null\<close>
  only), then \<^verbatim>\<open>throwIfNullOrWhitespace\<close> on the region (null, undefined, or nothing left
  after \<^verbatim>\<open>trim\<close>). Each failed check throws an \<^verbatim>\<open>Error\<close>.
\<close>

fun is_whitespace :: "char \<Rightarrow> bool" where
  "is_whitespace c = (c \<in> set [CHR '' '', CHR 0x09, CHR 0x0A, CHR 0x0B, CHR 0x0C, CHR 0x0D])"

fun fromAuthorizationToken :: "jsval \<Rightarrow> jsval \<Rightarrow> exn + SpeechConfig" where
  "fromAuthorizationToken Null reg = Inl (Error ''throwIfNull:authorizationToken'')"
| "fromAuthorizationToken tok Null = Inl (Error ''throwIfNullOrUndefined:region'')"
| "fromAuthorizationToken tok Undefined = Inl (Error ''throwIfNullOrUndefined:region'')"
| "fromAuthorizationToken tok (Str reg) =
     (if list_all is_whitespace reg then Inl (Error ''throwIfNullOrWhitespace:region'')
      else Inr \<lparr>authorizationToken = tok, region = Str reg,
                speechRecognitionLanguage = Undefined\<rparr>)"

definition fromDefaultMicrophoneInput :: AudioConfig where
  "fromDefaultMicrophoneInput = DefaultMicrophoneInput"

definition new_SpeechRecognizer :: "SpeechConfig \<Rightarrow> AudioConfig \<Rightarrow> SpeechRecognizer" where
  "new_SpeechRecognizer sc ac = \<lparr>speechConfig = sc, audioConfig = ac\<rparr>"

section \<open>The control\<close>

text \<open>
  \<^verbatim>\<open>sttFromMic\<close> is an \<^verbatim>\<open>async\<close> function that nobody awaits. It stops twice: at
  \<^verbatim>\<open>await this.getTokenOrRefresh()\<close>, which itself waits for \<^verbatim>\<open>axios.post\<close>, and
  after \<^verbatim>\<open>recognizeOnceAsync\<close>, whose callback the SDK calls later. The session field
  says where it stands; \<open>Faulted\<close> is a rejected promise that nothing observes.
\<close>

datatype session =
  NotStarted
| AwaitingToken AxiosRequest
| Listening SpeechRecognizer
| Completed
| Faulted exn

text \<open>
  The private fields \<^verbatim>\<open>_container\<close>, \<^verbatim>\<open>_context\<close>, \<^verbatim>\<open>_notifyOutputChanged\<close> and
  \<^verbatim>\<open>_refreshData\<close> are written \<open>p_...\<close>. The two function-valued fields only record
  whether they have been assigned. The last five fields are the world around the object:
  the children of the host's container, the number of times the host's
  \<^verbatim>\<open>notifyOutputChanged\<close> has been called, the console, \<^verbatim>\<open>process.env.SPEECH_KEY\<close>,
  and the pending asynchronous work.
\<close>

record TestingComponent =
  p_container :: "HTMLDivElement option"
  p_context :: "Context option"
  p_notifyOutputChanged :: bool
  p_refreshData :: bool
  labelElement :: "HTMLLabelElement option"
  displayText :: jsval
  hostContainer :: "node list"
  notifications :: nat
  console :: "string list"
  SPEECH_KEY :: jsval
  session :: session

text \<open>The empty constructor: every field is still unassigned.\<close>

definition constructor :: "jsval \<Rightarrow> TestingComponent" where
  "constructor key =
     \<lparr>p_container = None, p_context = None, p_notifyOutputChanged = False,
      p_refreshData = False, labelElement = None, displayText = Undefined,
      hostContainer = [], notifications = 0, console = [], SPEECH_KEY = key,
      session = NotStarted\<rparr>"

subsection \<open>getTokenOrRefresh\<close>

definition speechRegion :: string where
  "speechRegion = ''westeurope''"

text \<open>The result objects: a property that a literal does not mention reads \<^verbatim>\<open>undefined\<close>.\<close>

record tokenObj =
  authToken :: jsval
  tok_region :: jsval
  error :: jsval

text \<open>Up to the \<^verbatim>\<open>await\<close>: the request that is posted.\<close>

definition getTokenOrRefresh_request :: "jsval \<Rightarrow> AxiosRequest" where
  "getTokenOrRefresh_request speechKey =
     \<lparr>url = ''https://'' @ speechRegion @ ''.api.cognitive.microsoft.com/sts/v1.0/issueToken'',
      body = Null,
      headers = [(''Ocp-Apim-Subscription-Key'', speechKey),
                 (''Content-Type'', Str ''application/x-www-form-urlencoded'')]\<rparr>"

text \<open>
  From the \<^verbatim>\<open>await\<close> on: the lines written to the console and the value the promise
  settles with. In the \<^verbatim>\<open>catch\<close> block \<^verbatim>\<open>err.response.data\<close> reads a property of
  \<^verbatim>\<open>undefined\<close> when the error has no response; that throws inside the handler and
  rejects the promise.
\<close>

fun getTokenOrRefresh :: "AxiosOutcome \<Rightarrow> string list \<times> (exn + tokenObj)" where
  "getTokenOrRefresh (Fulfilled tokenResponse) =
     ([''Token fetched from back-end: '' @ toString (data tokenResponse)],
      Inr \<lparr>authToken = data tokenResponse, tok_region = Str speechRegion, error = Undefined\<rparr>)"
| "getTokenOrRefresh (Rejected err) =
     (case response err of
        None \<Rightarrow> ([], Inl TypeError)
      | Some r \<Rightarrow> ([], Inr \<lparr>authToken = Null, tok_region = Undefined, error = data r\<rparr>))"

subsection \<open>sttFromMic\<close>

definition placeholder :: string where
  "placeholder = ''speak into your microphone...''"

definition error_sentence :: string where
  "error_sentence =
     ''ERROR: Speech was cancelled or could not be recognized. Ensure your microphone is working properly.''"

text \<open>The call in \<^verbatim>\<open>init\<close> runs up to the first \<^verbatim>\<open>await\<close>: the token request is sent.\<close>

definition sttFromMic_start :: "TestingComponent \<Rightarrow> TestingComponent" where
  "sttFromMic_start s = s\<lparr>session := AwaitingToken (getTokenOrRefresh_request (SPEECH_KEY s))\<rparr>"

text \<open>
  The continuation once \<^verbatim>\<open>getTokenOrRefresh\<close> has settled. There is no check of the
  token: \<^verbatim>\<open>tokenObj.region || ""\<close> is the only adjustment. When the factory throws,
  the promise of \<^verbatim>\<open>sttFromMic\<close> is rejected before the placeholder is written.
\<close>

fun sttFromMic_resume :: "TestingComponent \<Rightarrow> exn + tokenObj \<Rightarrow> TestingComponent" where
  "sttFromMic_resume s (Inl e) = s\<lparr>session := Faulted e\<rparr>"
| "sttFromMic_resume s (Inr t) =
     (case fromAuthorizationToken (authToken t)
             (if truthy (tok_region t) then tok_region t else Str '''') of
        Inl e \<Rightarrow> s\<lparr>session := Faulted e\<rparr>
      | Inr speechConfig0 \<Rightarrow>
          (let speechConfig1 = speechConfig0\<lparr>speechRecognitionLanguage := Str ''en-US''\<rparr>;
               audioConfig1 = fromDefaultMicrophoneInput;
               recognizer = new_SpeechRecognizer speechConfig1 audioConfig1
           in s\<lparr>displayText := Str placeholder, session := Listening recognizer\<rparr>))"

text \<open>The callback given to \<^verbatim>\<open>recognizeOnceAsync\<close>. It assigns the field and nothing else.\<close>

definition recognizeOnceAsync_callback ::
  "TestingComponent \<Rightarrow> SpeechRecognitionResult \<Rightarrow> TestingComponent" where
  "recognizeOnceAsync_callback s result =
     (let displayText1 =
            (if reason result = RecognizedSpeech
             then ''RECOGNIZED: Text='' @ toString (text' result)
             else error_sentence)
      in s\<lparr>displayText := Str displayText1\<rparr>)"

subsection \<open>The lifecycle methods\<close>

definition init :: "TestingComponent \<Rightarrow> Context \<Rightarrow> TestingComponent" where
  "init s context =
     (let prop = IInputs.sampleProperty (parameters context);
          label0 = setAttribute (setAttribute createLabel ''class'' ''LinearRangeLabel'')
                     ''id'' ''lrclabel'';
          label1 = set_innerHTML label0
                     (if truthy (formatted prop) then formatted prop else Str ''0'');
          s1 = s\<lparr>p_context := Some context,
                 p_container := Some (appendChild createDiv LabelNode),
                 p_notifyOutputChanged := True,
                 p_refreshData := True,
                 labelElement := Some label1,
                 displayText := raw prop,
                 hostContainer := hostContainer s @ [ContainerNode]\<rparr>
      in sttFromMic_start s1)"

definition refreshData :: "TestingComponent \<Rightarrow> TestingComponent completion" where
  "refreshData s =
     (case labelElement s of
        None \<Rightarrow> Throw TypeError s
      | Some el \<Rightarrow>
          (let s1 = s\<lparr>labelElement := Some (set_innerHTML el (displayText s))\<rparr>
           in if p_notifyOutputChanged s1
              then Normal (s1\<lparr>notifications := Suc (notifications s1)\<rparr>)
              else Throw TypeError s1))"

definition updateView :: "TestingComponent \<Rightarrow> Context \<Rightarrow> TestingComponent completion" where
  "updateView s context =
     (let prop = IInputs.sampleProperty (parameters context);
          s1 = s\<lparr>displayText := raw prop, p_context := Some context\<rparr>
      in case labelElement s1 of
           None \<Rightarrow> Throw TypeError s1
         | Some el \<Rightarrow>
             Normal (s1\<lparr>labelElement := Some (set_innerHTML el
                        (if truthy (formatted prop) then formatted prop else Str ''''))\<rparr>))"

definition getOutputs :: "TestingComponent \<Rightarrow> IOutputs" where
  "getOutputs s = \<lparr>sampleProperty = displayText s\<rparr>"

definition destroy :: "TestingComponent \<Rightarrow> TestingComponent" where
  "destroy s = s"

subsection \<open>What can happen to a control\<close>

text \<open>
  The host calls \<^verbatim>\<open>init\<close> once, then \<^verbatim>\<open>updateView\<close>, \<^verbatim>\<open>getOutputs\<close> and
  \<^verbatim>\<open>destroy\<close> whenever it likes; the token exchange settles while the session waits for
  it, and the SDK delivers its one result while the session listens. \<^verbatim>\<open>refreshData\<close> is
  not among the events: the handler bound in \<^verbatim>\<open>init\<close> is never registered anywhere and
  no method calls it. An event that cannot happen in a state gives \<open>None\<close>.
\<close>

datatype event =
  Init Context
| TokenSettled HttpResult
| RecognitionResult SpeechRecognitionResult
| UpdateView Context
| GetOutputs
| Destroy

fun step :: "TestingComponent \<Rightarrow> event \<Rightarrow> TestingComponent option" where
  "step s (Init context) =
     (if session s = NotStarted then Some (init s context) else None)"
| "step s (TokenSettled h) =
     (case session s of
        AwaitingToken req \<Rightarrow>
          (let (lines, res) = getTokenOrRefresh (axios_post h)
           in Some (sttFromMic_resume (s\<lparr>console := console s @ lines\<rparr>) res))
      | _ \<Rightarrow> None)"
| "step s (RecognitionResult result) =
     (case session s of
        Listening recognizer \<Rightarrow> Some ((recognizeOnceAsync_callback s result)\<lparr>session := Completed\<rparr>)
      | _ \<Rightarrow> None)"
| "step s (UpdateView context) = Some (state_of (updateView s context))"
| "step s GetOutputs = Some s"
| "step s Destroy = Some (destroy s)"

fun run :: "TestingComponent \<Rightarrow> event list \<Rightarrow> TestingComponent option" where
  "run s [] = Some s"
| "run s (e # es) = (case step s e of None \<Rightarrow> None | Some s' \<Rightarrow> run s' es)"

text \<open>The values of Display Text after each event of a run.\<close>

fun displayTexts :: "TestingComponent \<Rightarrow> event list \<Rightarrow> jsval list option" where
  "displayTexts s [] = Some []"
| "displayTexts s (e # es) =
     (case step s e of
        None \<Rightarrow> None
      | Some s' \<Rightarrow> map_option ((#) (displayText s')) (displayTexts s' es))"

text \<open>
  The placeholder as the specification words it, to compare with the one in the code:
  "listening" followed by the ellipsis character U+2026, three bytes in UTF-8.
\<close>

definition spec_placeholder :: string where
  "spec_placeholder = ''listening'' @ [CHR 0xE2, CHR 0x80, CHR 0xA6]"

section \<open>Properties\<close>

subsection \<open>Field by field: what each method writes\<close>

lemma init_fields:
  "displayText (init s context) = raw (IInputs.sampleProperty (parameters context))"
  "session (init s context) = AwaitingToken (getTokenOrRefresh_request (SPEECH_KEY s))"
  "notifications (init s context) = notifications s"
  "console (init s context) = console s"
  "SPEECH_KEY (init s context) = SPEECH_KEY s"
  by (simp_all add: init_def sttFromMic_start_def Let_def)

lemma init_label:
  "map_option innerHTML (labelElement (init s context)) =
     Some (if truthy (formatted (IInputs.sampleProperty (parameters context)))
           then toString (formatted (IInputs.sampleProperty (parameters context))) else ''0'')"
  by (cases "formatted (IInputs.sampleProperty (parameters context))")
     (simp_all add: init_def sttFromMic_start_def Let_def setAttribute_def createLabel_def)

lemma updateView_fields:
  "displayText (state_of (updateView s context)) = raw (IInputs.sampleProperty (parameters context))"
  "session (state_of (updateView s context)) = session s"
  "notifications (state_of (updateView s context)) = notifications s"
  by (simp_all add: updateView_def Let_def split: option.split)

lemma callback_fields:
  "displayText (recognizeOnceAsync_callback s r) =
     Str (if reason r = RecognizedSpeech then ''RECOGNIZED: Text='' @ toString (text' r)
          else error_sentence)"
  "labelElement (recognizeOnceAsync_callback s r) = labelElement s"
  "notifications (recognizeOnceAsync_callback s r) = notifications s"
  "session (recognizeOnceAsync_callback s r) = session s"
  by (simp_all add: recognizeOnceAsync_callback_def Let_def)

lemma resume_fields:
  "labelElement (sttFromMic_resume s res) = labelElement s"
  "notifications (sttFromMic_resume s res) = notifications s"
  by (cases res; simp add: Let_def split: sum.split)+

text \<open>The two ways on from a token object: the factory accepts its arguments or throws.\<close>

lemma resume_accepted:
  "fromAuthorizationToken (authToken t)
     (if truthy (tok_region t) then tok_region t else Str '''') = Inr cfg \<Longrightarrow>
   sttFromMic_resume s (Inr t) =
     s\<lparr>displayText := Str placeholder,
       session := Listening \<lparr>speechConfig = cfg\<lparr>speechRecognitionLanguage := Str ''en-US''\<rparr>,
                            audioConfig = DefaultMicrophoneInput\<rparr>\<rparr>"
  by (simp add: Let_def fromDefaultMicrophoneInput_def new_SpeechRecognizer_def)

lemma resume_refused:
  "fromAuthorizationToken (authToken t)
     (if truthy (tok_region t) then tok_region t else Str '''') = Inl e \<Longrightarrow>
   sttFromMic_resume s (Inr t) = s\<lparr>session := Faulted e\<rparr>"
  by simp

lemma resume_listening:
  "session (sttFromMic_resume s (Inr t)) = Listening rc \<Longrightarrow>
   displayText (sttFromMic_resume s (Inr t)) = Str placeholder"
proof (cases "fromAuthorizationToken (authToken t)
                (if truthy (tok_region t) then tok_region t else Str '''')")
  case (Inl e)
  assume "session (sttFromMic_resume s (Inr t)) = Listening rc"
  with resume_refused [OF Inl, of s] show ?thesis by simp
next
  case (Inr cfg)
  from resume_accepted [OF Inr, of s] show ?thesis by simp
qed

lemma factory_westeurope:
  "tok \<noteq> Null \<Longrightarrow>
   fromAuthorizationToken tok (Str ''westeurope'') =
     Inr \<lparr>authorizationToken = tok, region = Str ''westeurope'',
          speechRecognitionLanguage = Undefined\<rparr>"
  by (cases tok) simp_all

lemma factory_null_token:
  "fromAuthorizationToken Null reg = Inl (Error ''throwIfNull:authorizationToken'')"
  by simp

lemma resume_token:
  "sttFromMic_resume s (Inr \<lparr>authToken = Str T, tok_region = Str ''westeurope'', error = x\<rparr>) =
     s\<lparr>displayText := Str placeholder,
       session := Listening
         \<lparr>speechConfig =
            \<lparr>authorizationToken = Str T, region = Str ''westeurope'',
             speechRecognitionLanguage = Str ''en-US''\<rparr>,
          audioConfig = DefaultMicrophoneInput\<rparr>\<rparr>"
  by (simp add: Let_def fromDefaultMicrophoneInput_def new_SpeechRecognizer_def)

lemma resume_null_token:
  "sttFromMic_resume s (Inr \<lparr>authToken = Null, tok_region = Undefined, error = x\<rparr>) =
     s\<lparr>session := Faulted (Error ''throwIfNull:authorizationToken'')\<rparr>"
  by simp

lemma getTokenOrRefresh_response:
  "snd (getTokenOrRefresh (axios_post (HttpResponse st d))) =
     Inr (if 200 \<le> st \<and> st < 300
          then \<lparr>authToken = d, tok_region = Str speechRegion, error = Undefined\<rparr>
          else \<lparr>authToken = Null, tok_region = Undefined, error = d\<rparr>)"
  by simp

lemma step_notifications:
  "step s e = Some s' \<Longrightarrow> notifications s' = notifications s"
  by (cases e)
     (auto simp: init_fields updateView_fields callback_fields resume_fields destroy_def
           simp del: sttFromMic_resume.simps
           split: if_splits session.splits prod.splits)

lemma run_notifications:
  "run s es = Some s' \<Longrightarrow> notifications s' = notifications s"
proof (induction es arbitrary: s)
  case Nil
  then show ?case by simp
next
  case (Cons e es)
  then obtain s1 where s1: "step s e = Some s1" and rest: "run s1 es = Some s'"
    by (auto split: option.splits)
  from Cons.IH [OF rest] step_notifications [OF s1] show ?case by simp
qed

lemma never_notified:
  "run (constructor key) es = Some s' \<Longrightarrow> notifications s' = 0"
  using run_notifications [of "constructor key" es s'] by (simp add: constructor_def)

text \<open>
  What refreshData does when it is called on an initialised control: the label shows
  Display Text and the host is notified once.
\<close>

lemma refreshData_initialised:
  "labelElement s = Some el \<Longrightarrow> p_notifyOutputChanged s \<Longrightarrow>
   refreshData s =
     Normal (s\<lparr>labelElement := Some (set_innerHTML el (displayText s)),
              notifications := Suc (notifications s)\<rparr>)"
  by (simp add: refreshData_def Let_def)

subsection \<open>The recognition result\<close>

text \<open>
  C2. For every recognition result delivered to the completion callback: when the reason
  is RecognizedSpeech and the recognised text is \<open>t\<close>, Display Text becomes exactly
  "RECOGNIZED: Text=" followed by \<open>t\<close> ("RECOGNIZED: Text=hello" for "hello"); for any
  other reason it becomes exactly the fixed error sentence.
\<close>

theorem callback_sets_displayText:
  "displayText (recognizeOnceAsync_callback s \<lparr>reason = RecognizedSpeech, text' = Str t\<rparr>) =
     Str (''RECOGNIZED: Text='' @ t)
   \<and> displayText (recognizeOnceAsync_callback s \<lparr>reason = RecognizedSpeech, text' = Str ''hello''\<rparr>) =
     Str ''RECOGNIZED: Text=hello''
   \<and> (reason r \<noteq> RecognizedSpeech \<longrightarrow>
        displayText (recognizeOnceAsync_callback s r) =
          Str ''ERROR: Speech was cancelled or could not be recognized. Ensure your microphone is working properly.'')
   \<and> (session s = Listening rc \<longrightarrow>
        map_option displayText (step s (RecognitionResult r)) =
          Some (displayText (recognizeOnceAsync_callback s r)))"
  by (simp add: callback_fields error_sentence_def)

theorem callback_sets_displayText_witness:
  "reason \<lparr>reason = Canceled, text' = Undefined\<rparr> \<noteq> RecognizedSpeech
   \<and> session ((constructor Undefined)\<lparr>session := Listening
         \<lparr>speechConfig = \<lparr>authorizationToken = Str ''T'', region = Str ''westeurope'',
             speechRecognitionLanguage = Str ''en-US''\<rparr>,
          audioConfig = DefaultMicrophoneInput\<rparr>\<rparr>) =
       Listening \<lparr>speechConfig = \<lparr>authorizationToken = Str ''T'', region = Str ''westeurope'',
             speechRecognitionLanguage = Str ''en-US''\<rparr>,
                  audioConfig = DefaultMicrophoneInput\<rparr>
   \<and> displayText (recognizeOnceAsync_callback
        ((constructor Undefined)\<lparr>session := Listening
           \<lparr>speechConfig = \<lparr>authorizationToken = Str ''T'', region = Str ''westeurope'',
             speechRecognitionLanguage = Str ''en-US''\<rparr>,
            audioConfig = DefaultMicrophoneInput\<rparr>\<rparr>)
        \<lparr>reason = Canceled, text' = Undefined\<rparr>) =
       Str ''ERROR: Speech was cancelled or could not be recognized. Ensure your microphone is working properly.''
   \<and> map_option displayText
        (step ((constructor Undefined)\<lparr>session := Listening
                 \<lparr>speechConfig = \<lparr>authorizationToken = Str ''T'', region = Str ''westeurope'',
             speechRecognitionLanguage = Str ''en-US''\<rparr>,
                  audioConfig = DefaultMicrophoneInput\<rparr>\<rparr>)
           (RecognitionResult \<lparr>reason = Canceled, text' = Undefined\<rparr>)) =
       Some (Str ''ERROR: Speech was cancelled or could not be recognized. Ensure your microphone is working properly.'')"
  using callback_sets_displayText
    [of "(constructor Undefined)\<lparr>session := Listening
           \<lparr>speechConfig = \<lparr>authorizationToken = Str ''T'', region = Str ''westeurope'',
             speechRecognitionLanguage = Str ''en-US''\<rparr>,
            audioConfig = DefaultMicrophoneInput\<rparr>\<rparr>"
        "''x''" "\<lparr>reason = Canceled, text' = Undefined\<rparr>"
        "\<lparr>speechConfig = \<lparr>authorizationToken = Str ''T'', region = Str ''westeurope'',
             speechRecognitionLanguage = Str ''en-US''\<rparr>,
          audioConfig = DefaultMicrophoneInput\<rparr>"]
  by simp

subsection \<open>The token and the recognition client\<close>

text \<open>
  C6. When the token endpoint answers HTTP 200 with token \<open>T\<close>, getTokenOrRefresh returns
  \<open>T\<close> together with the configured region, and the recognition client is then
  configured with authorization token \<open>T\<close>, that region, and the language en-US.
\<close>

theorem token_configures_client:
  "snd (getTokenOrRefresh (axios_post (HttpResponse 200 (Str T)))) =
     Inr \<lparr>authToken = Str T, tok_region = Str ''westeurope'', error = Undefined\<rparr>
   \<and> map_option session
        (run (constructor key) [Init context, TokenSettled (HttpResponse 200 (Str T))]) =
       Some (Listening
              \<lparr>speechConfig =
                 \<lparr>authorizationToken = Str T, region = Str ''westeurope'',
                  speechRecognitionLanguage = Str ''en-US''\<rparr>,
               audioConfig = DefaultMicrophoneInput\<rparr>)"
  by (simp add: constructor_def init_fields resume_token speechRegion_def
        del: sttFromMic_resume.simps)




text \<open>
  C3. A failing token fetch should give a result object with a null token and the server's
  error payload, and no exception should escape. When the exchange fails in transport the
  error has no response: reading \<^verbatim>\<open>err.response.data\<close> in the handler throws, the
  promise of getTokenOrRefresh is rejected, and sttFromMic ends there.
\<close>

theorem transport_failure_escapes:
  "snd (getTokenOrRefresh (axios_post NetworkError)) = Inl TypeError
   \<and> map_option (\<lambda>s. (session s, displayText s))
        (run (constructor (Str ''k''))
           [Init \<lparr>parameters = \<lparr>IInputs.sampleProperty = \<lparr>raw = Str ''x'', formatted = Str ''x''\<rparr>\<rparr>\<rparr>,
            TokenSettled NetworkError]) =
       Some (Faulted TypeError, Str ''x'')"
  by (simp add: constructor_def init_fields)

subsection \<open>Display Text over the life of the control\<close>

text \<open>
  C5, as the specification states it: after init has started the recognition attempt,
  Display Text is set to the placeholder "listening..." (with the ellipsis character). The
  code writes another text.
\<close>

theorem placeholder_is_not_listening:
  "map_option displayText
     (run (constructor (Str ''k''))
        [Init \<lparr>parameters = \<lparr>IInputs.sampleProperty = \<lparr>raw = Str ''x'', formatted = Str ''x''\<rparr>\<rparr>\<rparr>,
         TokenSettled (HttpResponse 200 (Str ''T''))])
   \<noteq> Some (Str spec_placeholder)"
  by (simp add: constructor_def init_fields resume_token placeholder_def spec_placeholder_def
        speechRegion_def del: sttFromMic_resume.simps)

text \<open>
  C5, amended. For every initial bound value \<open>V\<close>: init sets Display Text to \<open>V\<close>; no
  recognition result can arrive before the token exchange has settled; once the endpoint
  has answered with a 2xx status and a token string, Display Text is set to the
  placeholder "speak into your microphone...", and the result that arrives afterwards
  replaces it. The placeholder is the only value the recognition flow writes between
  \<open>V\<close> and the outcome.
\<close>

theorem placeholder_precedes_result:
  assumes "200 \<le> st" and "st < 300"
  shows "displayTexts (constructor key)
           [Init context, TokenSettled (HttpResponse st (Str T)), RecognitionResult r] =
           Some [raw (IInputs.sampleProperty (parameters context)),
                 Str ''speak into your microphone...'',
                 Str (if reason r = RecognizedSpeech
                      then ''RECOGNIZED: Text='' @ toString (text' r) else error_sentence)]
         \<and> run (constructor key) [Init context, RecognitionResult r] = None"
  using assms
  by (simp add: constructor_def init_fields resume_token callback_fields placeholder_def
        speechRegion_def del: sttFromMic_resume.simps)

theorem placeholder_precedes_result_witness:
  "(200::nat) \<le> 200 \<and> (200::nat) < 300
   \<and> displayTexts (constructor (Str ''k''))
        [Init \<lparr>parameters = \<lparr>IInputs.sampleProperty = \<lparr>raw = Str ''x'', formatted = Str ''x''\<rparr>\<rparr>\<rparr>,
         TokenSettled (HttpResponse 200 (Str ''T'')),
         RecognitionResult \<lparr>reason = RecognizedSpeech, text' = Str ''hello''\<rparr>] =
       Some [Str ''x'', Str ''speak into your microphone...'', Str ''RECOGNIZED: Text=hello'']
   \<and> run (constructor (Str ''k''))
        [Init \<lparr>parameters = \<lparr>IInputs.sampleProperty = \<lparr>raw = Str ''x'', formatted = Str ''x''\<rparr>\<rparr>\<rparr>,
         RecognitionResult \<lparr>reason = RecognizedSpeech, text' = Str ''hello''\<rparr>] = None"
proof -
  have h1: "(200::nat) \<le> 200" and h2: "(200::nat) < 300" by simp_all
  show ?thesis
    using h1 h2 placeholder_precedes_result [OF h1 h2, of "Str ''k''"
      "\<lparr>parameters = \<lparr>IInputs.sampleProperty = \<lparr>raw = Str ''x'', formatted = Str ''x''\<rparr>\<rparr>\<rparr>"
      "''T''" "\<lparr>reason = RecognizedSpeech, text' = Str ''hello''\<rparr>"]
    by simp
qed

text \<open>
  C4, as the specification states it: after every operation that writes it, init among
  them, the displayText field holds a string. A bound property without a value has
  \<^verbatim>\<open>raw = null\<close>, and init stores it as it is.
\<close>

theorem displayText_null_after_init:
  "\<not> is_string (displayText
        (init (constructor (Str ''k''))
           \<lparr>parameters = \<lparr>IInputs.sampleProperty = \<lparr>raw = Null, formatted = Undefined\<rparr>\<rparr>\<rparr>))"
  by (simp add: init_fields)

text \<open>
  C4, amended. Display Text has no default: it is unassigned until init. After init or
  updateView with a bound raw value that is a string, Display Text is that string; after
  the recognition flow has set the placeholder (the session listens) or the result, it is
  a string.
\<close>

theorem displayText_string_after_writes:
  "displayText (constructor key) = Undefined
   \<and> (raw (IInputs.sampleProperty (parameters context)) = Str v \<longrightarrow>
        displayText (init s context) = Str v
        \<and> displayText (state_of (updateView s context)) = Str v)
   \<and> (session (sttFromMic_resume s (Inr t)) = Listening rc \<longrightarrow>
        is_string (displayText (sttFromMic_resume s (Inr t))))
   \<and> is_string (displayText (sttFromMic_resume s
        (Inr \<lparr>authToken = Str T, tok_region = Str speechRegion, error = Undefined\<rparr>)))
   \<and> is_string (displayText (recognizeOnceAsync_callback s r))"
  by (simp add: init_fields updateView_fields resume_listening resume_token callback_fields
        constructor_def speechRegion_def placeholder_def del: sttFromMic_resume.simps)

theorem displayText_string_after_writes_witness:
  "raw (IInputs.sampleProperty (parameters
      \<lparr>parameters = \<lparr>IInputs.sampleProperty = \<lparr>raw = Str ''x'', formatted = Str ''x''\<rparr>\<rparr>\<rparr>)) = Str ''x''
   \<and> displayText (init (constructor (Str ''k''))
        \<lparr>parameters = \<lparr>IInputs.sampleProperty = \<lparr>raw = Str ''x'', formatted = Str ''x''\<rparr>\<rparr>\<rparr>) = Str ''x''
   \<and> displayText (state_of (updateView (constructor (Str ''k''))
        \<lparr>parameters = \<lparr>IInputs.sampleProperty = \<lparr>raw = Str ''x'', formatted = Str ''x''\<rparr>\<rparr>\<rparr>)) = Str ''x''
   \<and> session (sttFromMic_resume (constructor (Str ''k''))
        (Inr \<lparr>authToken = Str ''T'', tok_region = Str ''westeurope'', error = Undefined\<rparr>)) =
       Listening \<lparr>speechConfig =
                    \<lparr>authorizationToken = Str ''T'', region = Str ''westeurope'',
                     speechRecognitionLanguage = Str ''en-US''\<rparr>,
                  audioConfig = DefaultMicrophoneInput\<rparr>
   \<and> is_string (displayText (sttFromMic_resume (constructor (Str ''k''))
        (Inr \<lparr>authToken = Str ''T'', tok_region = Str ''westeurope'', error = Undefined\<rparr>)))"
  using displayText_string_after_writes
    [of "Str ''k''"
        "\<lparr>parameters = \<lparr>IInputs.sampleProperty = \<lparr>raw = Str ''x'', formatted = Str ''x''\<rparr>\<rparr>\<rparr>"
        "''x''" "constructor (Str ''k'')"
        "\<lparr>authToken = Str ''T'', tok_region = Str ''westeurope'', error = Undefined\<rparr>"
        "\<lparr>speechConfig =
            \<lparr>authorizationToken = Str ''T'', region = Str ''westeurope'',
             speechRecognitionLanguage = Str ''en-US''\<rparr>,
          audioConfig = DefaultMicrophoneInput\<rparr>"]
  by (simp add: Let_def fromDefaultMicrophoneInput_def new_SpeechRecognizer_def)

text \<open>
  C8. Every call of updateView overwrites Display Text with the newly bound raw value and
  leaves the recognition attempt in flight as it was. When updateView and the completion
  callback both write Display Text, the later write gives the final value, in either
  order.
\<close>

theorem updateView_last_write_wins:
  "displayText (state_of (updateView s context)) = raw (IInputs.sampleProperty (parameters context))
   \<and> session (state_of (updateView s context)) = session s
   \<and> step s (UpdateView context) = Some (state_of (updateView s context))
   \<and> map_option displayText
        (run (s\<lparr>session := Listening rc\<rparr>) [UpdateView context, RecognitionResult r]) =
       Some (Str (if reason r = RecognizedSpeech
                  then ''RECOGNIZED: Text='' @ toString (text' r) else error_sentence))
   \<and> map_option displayText
        (run (s\<lparr>session := Listening rc\<rparr>) [RecognitionResult r, UpdateView context]) =
       Some (raw (IInputs.sampleProperty (parameters context)))"
  by (simp add: updateView_fields callback_fields)

text \<open>
  C9. getOutputs returns the current Display Text as the bound output, whichever of the
  bound input, the placeholder and the recognition outcome was written last, and it
  changes nothing in the control.
\<close>

theorem getOutputs_reads_displayText:
  "getOutputs s = \<lparr>sampleProperty = displayText s\<rparr>
   \<and> step s GetOutputs = Some s
   \<and> getOutputs (init s context) =
       \<lparr>sampleProperty = raw (IInputs.sampleProperty (parameters context))\<rparr>
   \<and> getOutputs (state_of (updateView s context)) =
       \<lparr>sampleProperty = raw (IInputs.sampleProperty (parameters context))\<rparr>
   \<and> (session (sttFromMic_resume s (Inr t)) = Listening rc \<longrightarrow>
        getOutputs (sttFromMic_resume s (Inr t)) =
          \<lparr>sampleProperty = Str ''speak into your microphone...''\<rparr>)
   \<and> getOutputs (sttFromMic_resume s
         (Inr \<lparr>authToken = Str T, tok_region = Str speechRegion, error = Undefined\<rparr>)) =
       \<lparr>sampleProperty = Str ''speak into your microphone...''\<rparr>
   \<and> getOutputs (recognizeOnceAsync_callback s r) =
       \<lparr>sampleProperty = Str (if reason r = RecognizedSpeech
                               then ''RECOGNIZED: Text='' @ toString (text' r)
                               else error_sentence)\<rparr>"
  by (simp add: getOutputs_def init_fields updateView_fields resume_listening resume_token
        callback_fields placeholder_def speechRegion_def del: sttFromMic_resume.simps)

theorem getOutputs_reads_displayText_witness:
  "session (sttFromMic_resume (constructor (Str ''k''))
        (Inr \<lparr>authToken = Str ''T'', tok_region = Str ''westeurope'', error = Undefined\<rparr>)) =
     Listening \<lparr>speechConfig =
                  \<lparr>authorizationToken = Str ''T'', region = Str ''westeurope'',
                   speechRecognitionLanguage = Str ''en-US''\<rparr>,
                audioConfig = DefaultMicrophoneInput\<rparr>
   \<and> getOutputs (sttFromMic_resume (constructor (Str ''k''))
        (Inr \<lparr>authToken = Str ''T'', tok_region = Str ''westeurope'', error = Undefined\<rparr>)) =
     \<lparr>sampleProperty = Str ''speak into your microphone...''\<rparr>"
  using getOutputs_reads_displayText
    [of "constructor (Str ''k'')" _
        "\<lparr>authToken = Str ''T'', tok_region = Str ''westeurope'', error = Undefined\<rparr>"
        "\<lparr>speechConfig =
            \<lparr>authorizationToken = Str ''T'', region = Str ''westeurope'',
             speechRecognitionLanguage = Str ''en-US''\<rparr>,
          audioConfig = DefaultMicrophoneInput\<rparr>"]
  by (simp add: Let_def fromDefaultMicrophoneInput_def new_SpeechRecognizer_def)

text \<open>
  C10. destroy leaves the whole state of the control as it is: Display Text, the label
  element and the pending recognition attempt. A pending token exchange and a pending
  recognition result are delivered after destroy exactly as before it.
\<close>

theorem destroy_changes_nothing:
  "destroy s = s
   \<and> step s Destroy = Some s
   \<and> displayText (destroy s) = displayText s
   \<and> labelElement (destroy s) = labelElement s
   \<and> session (destroy s) = session s
   \<and> step (destroy s) (TokenSettled h) = step s (TokenSettled h)
   \<and> step (destroy s) (RecognitionResult r) = step s (RecognitionResult r)"
  by (simp add: destroy_def)

subsection \<open>The refresh path\<close>

text \<open>
  C1. On completion the callback should go through refreshData, so that the label shows
  the new Display Text and the host is notified. The callback leaves the label and the
  count of notifications as they are: after a recognised "hello" the field holds the
  result, the label still shows the initial formatted value and the host has not been
  notified.
\<close>

theorem completion_does_not_refresh:
  "labelElement (recognizeOnceAsync_callback s r) = labelElement s
   \<and> notifications (recognizeOnceAsync_callback s r) = notifications s
   \<and> map_option (\<lambda>s. (displayText s, map_option innerHTML (labelElement s), notifications s))
        (run (constructor (Str ''k''))
           [Init \<lparr>parameters = \<lparr>IInputs.sampleProperty = \<lparr>raw = Str ''x'', formatted = Str ''x''\<rparr>\<rparr>\<rparr>,
            TokenSettled (HttpResponse 200 (Str ''T'')),
            RecognitionResult \<lparr>reason = RecognizedSpeech, text' = Str ''hello''\<rparr>]) =
       Some (Str ''RECOGNIZED: Text=hello'', Some ''x'', 0)"
  by (simp add: callback_fields constructor_def init_fields init_label resume_token
        speechRegion_def del: sttFromMic_resume.simps)

end
